theory Spec2Isabelle
  imports Complex_Main
begin

section \<open>Data model (src/lib/supabase.ts and the schema migration)\<close>

text \<open>
  Row identifiers are opaque (\<open>uuid\<close> strings in the source); they are modelled as
  natural numbers, and the store hands out the next unused one on insert.
  A JavaScript \<open>number\<close> is modelled as an exact real: rounding of doubles is not
  part of the model.  A calendar date (the \<open>yyyy-MM-dd\<close> string of a form field or of
  a \<open>date\<close> column) is modelled by its day number.
  Columns that no modelled computation reads (names, notes, signature and photo data,
  audit time stamps, \<open>created_by\<close>) are left out of the records.
\<close>

type_synonym id = nat
type_synonym number = real
type_synonym date = int

datatype rental_status = Active | Partially_returned | Completed | Cancelled

datatype condition = Good | Damaged | Lost

record StockItem =
  si_id :: id
  si_category_id :: id
  total_quantity :: number
  available_quantity :: number
  rented_quantity :: number
  damaged_quantity :: number

record RentalItem =
  ri_id :: id
  ri_rental_id :: id
  ri_category_id :: id
  ri_quantity :: number
  ri_daily_rate :: number
  ri_returned_quantity :: number

text \<open>
  \<open>Rental.rental_items\<close> is the optional joined list of the TypeScript interface; rows
  of the \<open>rentals\<close> table carry \<open>None\<close> there.  \<open>total_amount\<close> is nullable in the
  schema, and the code reads it as \<open>rental.total_amount || 0\<close>.
\<close>

record Rental =
  r_id :: id
  r_client_id :: id
  rental_date :: date
  expected_return_date :: "date option"
  actual_return_date :: "date option"
  status :: rental_status
  total_amount :: "number option"
  rental_items :: "RentalItem list option"

record ReturnRecord =
  ret_id :: id
  ret_rental_id :: id
  ret_return_date :: date
  total_damage_cost :: number

text \<open>
  Rows of \<open>return_items\<close> and \<open>invoices\<close> are modelled by the columns the code
  writes; their generated identifiers are never read and are left out.
\<close>

record ReturnItem =
  rti_return_id :: id
  rti_rental_item_id :: id
  rti_returned_quantity :: number
  rti_condition :: condition
  rti_damage_cost :: number

record Payment =
  pay_client_id :: id
  amount :: number
  payment_date :: date

record Invoice =
  inv_client_id :: id
  inv_rental_id :: id
  inv_issue_date :: date
  inv_due_date :: date
  subtotal :: number
  inv_tax_rate :: number

record Client =
  c_id :: id
  c_name :: string

text \<open>The hosted store: one list of rows per table, in insertion order.\<close>

record database =
  next_id :: id
  tbl_clients :: "Client list"
  tbl_stock_items :: "StockItem list"
  tbl_rentals :: "Rental list"
  tbl_rental_items :: "RentalItem list"
  tbl_returns :: "ReturnRecord list"
  tbl_return_items :: "ReturnItem list"
  tbl_payments :: "Payment list"
  tbl_invoices :: "Invoice list"

text \<open>
  A handler either returns at once (its guard on the signed-in user and the form),
  reports success, or reports a failure.  The two failures the handlers distinguish are
  the stock check of the issuance form and an error object returned by the store;
  \<open>ValidationError\<close> is the refusal of a submission by the constraints of the form
  fields, before the handler runs.
\<close>

datatype error = InsufficientStockError | StoreError | ValidationError

datatype outcome = NotSubmitted | Succeeded | Failed error

section \<open>Rental accrual (src/pages/Billing.tsx, calculateRentalAmount)\<close>

text \<open>
  A JavaScript \<open>Date\<close> is modelled by its reading on the local wall clock, which is
  all that date-fns looks at: the calendar day (as a day number, what \<open>getFullYear\<close>,
  \<open>getMonth\<close> and \<open>getDate\<close> give) and the time of day in milliseconds (what
  \<open>getHours\<close> to \<open>getMilliseconds\<close> give).
\<close>

record Date =
  localDay :: int
  localTime :: int

text \<open>
  What the time zone of the browser decides is taken as a parameter:
  \<open>newDate s\<close> is the local reading of \<open>new Date(s)\<close> for a date-only string (UTC
  midnight of that day), and \<open>setLocal\<close> gives the reading of the \<open>Date\<close> that the
  platform makes of a wall-clock time, which is that time itself unless the zone skips
  it at a change to daylight saving time.
\<close>

record TimeZone =
  newDate :: "date \<Rightarrow> Date"
  setLocal :: "Date \<Rightarrow> Date"

text \<open>
  The functions of the date-fns library, after their source: \<open>compareLocalAsc\<close>
  compares year, month, day, hours, minutes, seconds and milliseconds in that order;
  \<open>differenceInDays\<close> counts calendar days, moves the later date back by that many
  days with \<open>setDate\<close>, and takes one day off when the last day is not full.
\<close>

definition compareLocalAsc :: "Date \<Rightarrow> Date \<Rightarrow> int" where
  "compareLocalAsc laterDate earlierDate =
     (if localDay laterDate \<noteq> localDay earlierDate
      then sgn (localDay laterDate - localDay earlierDate)
      else sgn (localTime laterDate - localTime earlierDate))"

definition differenceInCalendarDays :: "Date \<Rightarrow> Date \<Rightarrow> int" where
  "differenceInCalendarDays laterDate earlierDate = localDay laterDate - localDay earlierDate"

definition differenceInDays :: "TimeZone \<Rightarrow> Date \<Rightarrow> Date \<Rightarrow> int" where
  "differenceInDays tz laterDate earlierDate =
     (let sign = compareLocalAsc laterDate earlierDate;
          difference = \<bar>differenceInCalendarDays laterDate earlierDate\<bar>;
          movedDate = setLocal tz (laterDate\<lparr>localDay := localDay laterDate - sign * difference\<rparr>);
          isLastDayNotFull = (if compareLocalAsc movedDate earlierDate = - sign then 1 else 0)
      in sign * (difference - isLastDayNotFull))"

definition calculateRentalAmount :: "TimeZone \<Rightarrow> Date \<Rightarrow> Rental \<Rightarrow> number" where
  "calculateRentalAmount tz today rental =
     (case rental_items rental of
        None \<Rightarrow> 0
      | Some items \<Rightarrow>
          (let rentalDate = newDate tz (rental_date rental);
               returnDate = (case actual_return_date rental of
                               Some d \<Rightarrow> newDate tz d
                             | None \<Rightarrow> today);
               days = max 1 (differenceInDays tz returnDate rentalDate + 1)
           in foldl (\<lambda>total item. total + ri_quantity item * ri_daily_rate item * of_int days)
                0 items))"

section \<open>Invoice generation (src/pages/Billing.tsx, generateInvoice)\<close>

record InvoiceFormData =
  if_client_id :: id
  if_rental_id :: id
  if_issue_date :: date
  if_due_date :: date
  if_tax_rate :: number

text \<open>
  The handler computes the subtotal from the selected rental and inserts one invoice row;
  a store error is thrown and caught.  Rendering the PDF afterwards writes nothing to
  the store and is not modelled.  \<open>invoice_insert_fails\<close> says whether the store
  answers the insert with an error.
\<close>

definition generateInvoice ::
  "bool \<Rightarrow> TimeZone \<Rightarrow> Date \<Rightarrow> id option \<Rightarrow> Rental option \<Rightarrow> InvoiceFormData \<Rightarrow> database
     \<Rightarrow> outcome \<times> database" where
  "generateInvoice invoice_insert_fails tz today user selectedRental invoiceFormData db =
     (case (user, selectedRental) of
        (Some u, Some rental) \<Rightarrow>
          (let subtotal = calculateRentalAmount tz today rental
           in if invoice_insert_fails then (Failed StoreError, db)
              else (Succeeded,
                    db\<lparr>tbl_invoices := tbl_invoices db @
                       [\<lparr>inv_client_id = if_client_id invoiceFormData,
                         inv_rental_id = if_rental_id invoiceFormData,
                         inv_issue_date = if_issue_date invoiceFormData,
                         inv_due_date = if_due_date invoiceFormData,
                         subtotal = subtotal,
                         inv_tax_rate = if_tax_rate invoiceFormData\<rparr>]\<rparr>))
      | _ \<Rightarrow> (NotSubmitted, db))"

section \<open>Rental issuance (Udhar page: handleSubmit and its helpers)\<close>

record RentalItemForm =
  category_id :: id
  quantity :: number
  daily_rate :: number

record UdharFormData =
  client_id :: id
  fd_rental_date :: date
  fd_expected_return_date :: "date option"

text \<open>
  Which store calls of one submission are answered with an error.  The two inserts are
  checked by the handler (\<open>if (rentalError) throw rentalError\<close>); the result of a stock
  update is not looked at, so a failed update only leaves the row as it was.  The
  stock updates are numbered by their position in the loop.
\<close>

record Udhar_faults =
  rentals_insert_fails :: bool
  rental_items_insert_fails :: bool
  stock_update_fails :: "nat \<Rightarrow> bool"

definition calculateTotal :: "RentalItemForm list \<Rightarrow> number" where
  "calculateTotal rentalItems =
     foldl (\<lambda>total item. total + quantity item * daily_rate item) 0 rentalItems"

definition getAvailableQuantity :: "StockItem list \<Rightarrow> id \<Rightarrow> number" where
  "getAvailableQuantity stockItems categoryId =
     (case find (\<lambda>item. si_category_id item = categoryId) stockItems of
        Some stockItem \<Rightarrow> available_quantity stockItem
      | None \<Rightarrow> 0)"

text \<open>
  The loop "Update stock quantities": every line item looks its stock item up in the
  snapshot \<open>stockItems\<close> fetched earlier, and writes counters computed from that
  snapshot to the row of the table with the same id.
\<close>

fun update_stock ::
  "(nat \<Rightarrow> bool) \<Rightarrow> StockItem list \<Rightarrow> nat \<Rightarrow> RentalItemForm list \<Rightarrow> StockItem list
     \<Rightarrow> StockItem list" where
  "update_stock fails stockItems i [] tbl = tbl"
| "update_stock fails stockItems i (item # items) tbl =
     update_stock fails stockItems (Suc i) items
       (case find (\<lambda>si. si_category_id si = category_id item) stockItems of
          None \<Rightarrow> tbl
        | Some stockItem \<Rightarrow>
            if fails i then tbl
            else map (\<lambda>row. if si_id row = si_id stockItem
                         then row\<lparr>available_quantity := available_quantity stockItem - quantity item,
                                  rented_quantity := rented_quantity stockItem + quantity item\<rparr>
                         else row) tbl)"

definition Udhar_handleSubmit ::
  "Udhar_faults \<Rightarrow> id option \<Rightarrow> UdharFormData \<Rightarrow> RentalItemForm list \<Rightarrow> StockItem list
     \<Rightarrow> database \<Rightarrow> outcome \<times> database" where
  "Udhar_handleSubmit faults user formData rentalItems stockItems db =
     (if user = None \<or> rentalItems = [] then (NotSubmitted, db)
      else if list_ex (\<lambda>item. quantity item > getAvailableQuantity stockItems (category_id item))
                rentalItems
      then (Failed InsufficientStockError, db)
      else if rentals_insert_fails faults then (Failed StoreError, db)
      else
        (let rental = \<lparr>r_id = next_id db,
                       r_client_id = client_id formData,
                       rental_date = fd_rental_date formData,
                       expected_return_date = fd_expected_return_date formData,
                       actual_return_date = None,
                       status = Active,
                       total_amount = Some (calculateTotal rentalItems),
                       rental_items = None\<rparr>;
             db1 = db\<lparr>next_id := Suc (next_id db), tbl_rentals := tbl_rentals db @ [rental]\<rparr>
         in if rental_items_insert_fails faults then (Failed StoreError, db1)
            else
              (let rentalItemsData =
                     map (\<lambda>(k, item). \<lparr>ri_id = k,
                                        ri_rental_id = r_id rental,
                                        ri_category_id = category_id item,
                                        ri_quantity = quantity item,
                                        ri_daily_rate = daily_rate item,
                                        ri_returned_quantity = 0\<rparr>)
                       (enumerate (next_id db1) rentalItems);
                   db2 = db1\<lparr>next_id := next_id db1 + length rentalItems,
                            tbl_rental_items := tbl_rental_items db1 @ rentalItemsData\<rparr>;
                   db3 = db2\<lparr>tbl_stock_items :=
                              update_stock (stock_update_fails faults) stockItems 0 rentalItems
                                (tbl_stock_items db2)\<rparr>
               in (Succeeded, db3))))"

section \<open>Return processing (src/pages/Jama.tsx, handleSubmit)\<close>

record ReturnFormData =
  rf_rental_id :: id
  rf_return_date :: date

record ReturnItemFormData =
  rental_item_id :: id
  returned_quantity :: number
  condition :: condition
  damage_cost :: number

text \<open>
  The handler checks the results of its two inserts; the result of the update of the
  rental is not looked at.
\<close>

record Jama_faults =
  returns_insert_fails :: bool
  return_items_insert_fails :: bool
  rentals_update_fails :: bool

definition calculateTotalDamageCost :: "ReturnItemFormData list \<Rightarrow> number" where
  "calculateTotalDamageCost returnItems =
     foldl (\<lambda>total item. total + damage_cost item) 0 returnItems"

definition allItemsReturned :: "Rental \<Rightarrow> ReturnItemFormData list \<Rightarrow> bool" where
  "allItemsReturned selectedRental returnItems =
     (case rental_items selectedRental of
        None \<Rightarrow> False
      | Some ris \<Rightarrow>
          list_all (\<lambda>rentalItem.
              case find (\<lambda>ri. rental_item_id ri = ri_id rentalItem) returnItems of
                None \<Rightarrow> False
              | Some returnItem \<Rightarrow>
                  ri_returned_quantity rentalItem + returned_quantity returnItem
                    \<ge> ri_quantity rentalItem) ris)"

definition Jama_handleSubmit ::
  "Jama_faults \<Rightarrow> id option \<Rightarrow> Rental option \<Rightarrow> ReturnFormData \<Rightarrow> ReturnItemFormData list
     \<Rightarrow> database \<Rightarrow> outcome \<times> database" where
  "Jama_handleSubmit faults user selectedRental returnFormData returnItems db =
     (case (user, selectedRental) of
        (Some u, Some rental) \<Rightarrow>
          if returns_insert_fails faults then (Failed StoreError, db)
          else
            (let returnRecord = \<lparr>ret_id = next_id db,
                                 ret_rental_id = rf_rental_id returnFormData,
                                 ret_return_date = rf_return_date returnFormData,
                                 total_damage_cost = calculateTotalDamageCost returnItems\<rparr>;
                 db1 = db\<lparr>next_id := Suc (next_id db),
                          tbl_returns := tbl_returns db @ [returnRecord]\<rparr>;
                 returnItemsData =
                   map (\<lambda>item. \<lparr>rti_return_id = ret_id returnRecord,
                                 rti_rental_item_id = rental_item_id item,
                                 rti_returned_quantity = returned_quantity item,
                                 rti_condition = condition item,
                                 rti_damage_cost = damage_cost item\<rparr>)
                     (filter (\<lambda>item. returned_quantity item > 0) returnItems)
             in if return_items_insert_fails faults then (Failed StoreError, db1)
                else
                  (let db2 = db1\<lparr>tbl_return_items := tbl_return_items db1 @ returnItemsData\<rparr>;
                       newStatus = (if allItemsReturned rental returnItems
                                    then Completed else Partially_returned);
                       db3 = (if rentals_update_fails faults then db2
                              else db2\<lparr>tbl_rentals :=
                                     map (\<lambda>row. if r_id row = r_id rental
                                            then row\<lparr>status := newStatus,
                                                     actual_return_date :=
                                                       (if newStatus = Completed
                                                        then Some (rf_return_date returnFormData)
                                                        else None)\<rparr>
                                            else row) (tbl_rentals db2)\<rparr>)
                   in (Succeeded, db3)))
      | _ \<Rightarrow> (NotSubmitted, db))"

text \<open>
  The form around the handler (\<open>form onSubmit={handleSubmit}\<close>).  For every entry of
  \<open>returnItems\<close> whose rental item is found in the selected rental it shows a number
  field for the quantity with \<open>min="0"\<close>, \<open>max={pendingQuantity}\<close> and the default
  step of 1, and, when the condition is not good, a number field for the damage cost
  with \<open>min="0"\<close> and \<open>step="0.01"\<close>.  The required return date is a filled field in
  the model.
\<close>

definition pendingQuantity :: "RentalItem \<Rightarrow> number" where
  "pendingQuantity rentalItem = ri_quantity rentalItem - ri_returned_quantity rentalItem"

definition checkValidity :: "Rental \<Rightarrow> ReturnItemFormData list \<Rightarrow> bool" where
  "checkValidity selectedRental returnItems =
     list_all (\<lambda>returnItem.
         case (case rental_items selectedRental of
                 None \<Rightarrow> None
               | Some ris \<Rightarrow> find (\<lambda>ri. ri_id ri = rental_item_id returnItem) ris) of
           None \<Rightarrow> True
         | Some rentalItem \<Rightarrow>
             0 \<le> returned_quantity returnItem
             \<and> returned_quantity returnItem \<le> pendingQuantity rentalItem
             \<and> of_int \<lfloor>returned_quantity returnItem\<rfloor> = returned_quantity returnItem
             \<and> (condition returnItem = Good
                  \<or> 0 \<le> damage_cost returnItem
                    \<and> of_int \<lfloor>damage_cost returnItem * 100\<rfloor> = damage_cost returnItem * 100))
       returnItems"

text \<open>
  A submission of the form.  The submit button is disabled while a submission is being
  processed and when every quantity is 0.  The browser validates the fields before it
  fires the submit event: with a field out of its constraints it reports the field
  and the handler does not run.
\<close>

definition Jama_submit ::
  "bool \<Rightarrow> Jama_faults \<Rightarrow> id option \<Rightarrow> Rental \<Rightarrow> ReturnFormData \<Rightarrow> ReturnItemFormData list
     \<Rightarrow> database \<Rightarrow> outcome \<times> database" where
  "Jama_submit processing faults user selectedRental returnFormData returnItems db =
     (if processing \<or> list_all (\<lambda>item. returned_quantity item = 0) returnItems
      then (NotSubmitted, db)
      else if \<not> checkValidity selectedRental returnItems then (Failed ValidationError, db)
      else Jama_handleSubmit faults user (Some selectedRental) returnFormData returnItems db)"

section \<open>Client ledgers (src/pages/KhataWahi.tsx, fetchClientLedgers)\<close>

record ClientLedger =
  client :: Client
  activeRentals :: "Rental list"
  totalOutstanding :: number
  totalPaid :: number
  currentBalance :: number
  recentPayments :: "Payment list"

record Ledger_faults =
  clients_select_fails :: bool
  rentals_select_fails :: "id \<Rightarrow> bool"
  payments_select_fails :: "id \<Rightarrow> bool"

text \<open>The select of rentals joins each rental with its rental items.\<close>

definition with_rental_items :: "database \<Rightarrow> Rental \<Rightarrow> Rental" where
  "with_rental_items db rental =
     rental\<lparr>rental_items :=
       Some (filter (\<lambda>item. ri_rental_id item = r_id rental) (tbl_rental_items db))\<rparr>"

text \<open>
  The body of the loop over the clients, for one client: the two queries and the three
  totals.  The payments query is ordered by \<open>payment_date\<close>, latest first, and limited
  to 10 rows.
\<close>

definition clientLedger :: "database \<Rightarrow> Client \<Rightarrow> ClientLedger" where
  "clientLedger db c =
     (let activeRentals =
            map (with_rental_items db)
              (filter (\<lambda>rental. r_client_id rental = c_id c
                          \<and> (status rental = Active \<or> status rental = Partially_returned))
                 (tbl_rentals db));
          payments =
            take 10 (sort_key (\<lambda>payment. - payment_date payment)
              (filter (\<lambda>payment. pay_client_id payment = c_id c) (tbl_payments db)));
          totalOutstanding =
            foldl (\<lambda>sum rental. sum + (case total_amount rental of Some a \<Rightarrow> a | None \<Rightarrow> 0))
              0 activeRentals;
          totalPaid = foldl (\<lambda>sum payment. sum + amount payment) 0 payments;
          currentBalance = totalOutstanding - totalPaid
      in \<lparr>client = c,
          activeRentals = activeRentals,
          totalOutstanding = totalOutstanding,
          totalPaid = totalPaid,
          currentBalance = currentBalance,
          recentPayments = payments\<rparr>)"

fun ledgers_loop :: "Ledger_faults \<Rightarrow> database \<Rightarrow> Client list \<Rightarrow> error + ClientLedger list" where
  "ledgers_loop faults db [] = Inr []"
| "ledgers_loop faults db (c # cs) =
     (if rentals_select_fails faults (c_id c) \<or> payments_select_fails faults (c_id c)
      then Inl StoreError
      else (case ledgers_loop faults db cs of
              Inl e \<Rightarrow> Inl e
            | Inr ledgers \<Rightarrow> Inr (clientLedger db c # ledgers)))"

text \<open>The clients table is kept in the order of the query (\<open>order('name')\<close>).\<close>

definition fetchClientLedgers :: "Ledger_faults \<Rightarrow> database \<Rightarrow> error + ClientLedger list" where
  "fetchClientLedgers faults db =
     (if clients_select_fails faults then Inl StoreError
      else ledgers_loop faults db (tbl_clients db))"

section \<open>Sequences of issuances and returns\<close>

text \<open>
  One user working with the two forms.  The issuance form reads its stock snapshot from
  the store when it is mounted and again after each successful submission, and no
  other handler of the model writes stock rows, so at every submission the snapshot is
  the current \<open>stock_items\<close> table.
\<close>

datatype operation =
    Issue Udhar_faults "id option" UdharFormData "RentalItemForm list"
  | Return Jama_faults "id option" "Rental option" ReturnFormData "ReturnItemFormData list"

fun apply_operation :: "operation \<Rightarrow> database \<Rightarrow> database" where
  "apply_operation (Issue faults user formData rentalItems) db =
     snd (Udhar_handleSubmit faults user formData rentalItems (tbl_stock_items db) db)"
| "apply_operation (Return faults user selectedRental returnFormData returnItems) db =
     snd (Jama_handleSubmit faults user selectedRental returnFormData returnItems db)"

text \<open>The states of the store after each operation of a sequence.\<close>

fun run :: "operation list \<Rightarrow> database \<Rightarrow> database list" where
  "run [] db = []"
| "run (operation # operations) db =
     (let db' = apply_operation operation db in db' # run operations db')"

definition stock_invariant :: "StockItem \<Rightarrow> bool" where
  "stock_invariant si \<longleftrightarrow>
     available_quantity si + rented_quantity si + damaged_quantity si = total_quantity si"

text \<open>
  The stock rows of a table are in order when their ids are pairwise different (the
  primary key) and every row satisfies the invariant.
\<close>

definition stock_ok :: "StockItem list \<Rightarrow> bool" where
  "stock_ok tbl \<longleftrightarrow> distinct (map si_id tbl) \<and> (\<forall>si\<in>set tbl. stock_invariant si)"

section \<open>Concrete stores and forms of the evaluated scenarios\<close>

text \<open>The calendar day with the number \<open>n\<close>, and noon of a day on the local clock.\<close>

definition day :: "int \<Rightarrow> date" where
  "day n = n"

definition noon :: "date \<Rightarrow> Date" where
  "noon d = \<lparr>localDay = d, localTime = 43200000\<rparr>"

text \<open>A browser at UTC: a date-only string is read as local midnight, no time is skipped.\<close>

definition utc :: TimeZone where
  "utc = \<lparr>newDate = (\<lambda>d. \<lparr>localDay = d, localTime = 0\<rparr>), setLocal = (\<lambda>d. d)\<rparr>"

text \<open>
  A browser four or five hours west of UTC around a return to standard time in the
  night to day 1 (as in New York, with 2 November 2024 as day 0): UTC midnight of a day
  reads 20:00 of the day before up to day 1, and 19:00 of the day before afterwards.
\<close>

definition eastern :: TimeZone where
  "eastern = \<lparr>newDate = (\<lambda>d. \<lparr>localDay = d - 1,
                                 localTime = (if d \<le> 1 then 72000000 else 68400000)\<rparr>),
              setLocal = (\<lambda>d. d)\<rparr>"

definition stock_7 :: StockItem where
  "stock_7 = \<lparr>si_id = 1, si_category_id = 7, total_quantity = 10, available_quantity = 6,
               rented_quantity = 4, damaged_quantity = 0\<rparr>"

definition shop_db :: database where
  "shop_db = \<lparr>next_id = 100,
              tbl_clients = [\<lparr>c_id = 3, c_name = ''Asha''\<rparr>],
              tbl_stock_items = [stock_7],
              tbl_rentals = [], tbl_rental_items = [], tbl_returns = [],
              tbl_return_items = [], tbl_payments = [], tbl_invoices = []\<rparr>"

definition no_Udhar_faults :: Udhar_faults where
  "no_Udhar_faults = \<lparr>rentals_insert_fails = False, rental_items_insert_fails = False,
                       stock_update_fails = (\<lambda>i. False)\<rparr>"

definition no_Jama_faults :: Jama_faults where
  "no_Jama_faults = \<lparr>returns_insert_fails = False, return_items_insert_fails = False,
                      rentals_update_fails = False\<rparr>"

definition items_insert_fault :: Jama_faults where
  "items_insert_fault = \<lparr>returns_insert_fails = False, return_items_insert_fails = True,
                          rentals_update_fails = False\<rparr>"

definition udhar_form :: UdharFormData where
  "udhar_form = \<lparr>client_id = 3, fd_rental_date = day 0, fd_expected_return_date = None\<rparr>"

definition line :: "id \<Rightarrow> number \<Rightarrow> number \<Rightarrow> RentalItemForm" where
  "line c q r = \<lparr>category_id = c, quantity = q, daily_rate = r\<rparr>"

text \<open>A store with one open rental of 3 units of category 7 and 2 units of category 8.\<close>

definition rented_db :: database where
  "rented_db = \<lparr>next_id = 103,
      tbl_clients = [\<lparr>c_id = 3, c_name = ''Asha''\<rparr>],
      tbl_stock_items =
        [\<lparr>si_id = 1, si_category_id = 7, total_quantity = 10, available_quantity = 7,
          rented_quantity = 3, damaged_quantity = 0\<rparr>,
         \<lparr>si_id = 2, si_category_id = 8, total_quantity = 5, available_quantity = 3,
          rented_quantity = 2, damaged_quantity = 0\<rparr>],
      tbl_rentals =
        [\<lparr>r_id = 100, r_client_id = 3, rental_date = day 0, expected_return_date = None,
          actual_return_date = None, status = Active, total_amount = Some 125,
          rental_items = None\<rparr>],
      tbl_rental_items =
        [\<lparr>ri_id = 101, ri_rental_id = 100, ri_category_id = 7, ri_quantity = 3,
          ri_daily_rate = 25, ri_returned_quantity = 0\<rparr>,
         \<lparr>ri_id = 102, ri_rental_id = 100, ri_category_id = 8, ri_quantity = 2,
          ri_daily_rate = 25, ri_returned_quantity = 0\<rparr>],
      tbl_returns = [], tbl_return_items = [], tbl_payments = [], tbl_invoices = []\<rparr>"

definition rented_rental :: Rental where
  "rented_rental = with_rental_items rented_db (hd (tbl_rentals rented_db))"

definition return_form :: ReturnFormData where
  "return_form = \<lparr>rf_rental_id = 100, rf_return_date = day 4\<rparr>"

definition submission :: "id \<Rightarrow> number \<Rightarrow> condition \<Rightarrow> number \<Rightarrow> ReturnItemFormData" where
  "submission k q c cost =
     \<lparr>rental_item_id = k, returned_quantity = q, condition = c, damage_cost = cost\<rparr>"

text \<open>A client with eleven payments of 100 each, on the days 1 to 11.\<close>

definition ledger_db :: database where
  "ledger_db = shop_db\<lparr>tbl_payments :=
      map (\<lambda>n. \<lparr>pay_client_id = 3, amount = 100, payment_date = day (int n)\<rparr>) [1..<12]\<rparr>"

text \<open>
  Two units at 25 a day issued on day 0, and an invoice generated for that rental on
  day 4.
\<close>

definition issued_db :: database where
  "issued_db = snd (Udhar_handleSubmit no_Udhar_faults (Some 1) udhar_form [line 7 2 25]
                      (tbl_stock_items shop_db) shop_db)"

definition issued_rental :: Rental where
  "issued_rental = with_rental_items issued_db (hd (tbl_rentals issued_db))"

definition invoice_form :: InvoiceFormData where
  "invoice_form = \<lparr>if_client_id = 3, if_rental_id = 100, if_issue_date = day 4,
                    if_due_date = day 34, if_tax_rate = 18\<rparr>"

definition invoiced_db :: database where
  "invoiced_db = snd (generateInvoice False utc (noon (day 4)) (Some 1) (Some issued_rental)
                        invoice_form issued_db)"

lemmas scenario_defs = day_def noon_def utc_def eastern_def stock_7_def shop_db_def no_Udhar_faults_def no_Jama_faults_def
  items_insert_fault_def udhar_form_def line_def rented_db_def rented_rental_def
  return_form_def submission_def ledger_db_def issued_db_def issued_rental_def
  invoice_form_def invoiced_db_def with_rental_items_def

section \<open>Properties\<close>

subsection \<open>Helper facts\<close>

lemma foldl_plus_sum_list:
  "foldl (\<lambda>acc x. acc + f x) a xs = a + sum_list (map f xs)"
  for a :: "'a::monoid_add"
  by (induction xs arbitrary: a) (simp_all add: add.assoc)






lemma find_map_preserving:
  assumes "\<And>x. P (f x) = P x"
  shows "find P (map f xs) = map_option f (find P xs)"
  using assms by (induction xs) simp_all

lemma find_Some_mem: "find P xs = Some x \<Longrightarrow> x \<in> set xs \<and> P x"
  by (auto simp: find_Some_iff)

lemma Jama_handleSubmit_stock:
  "tbl_stock_items (snd (Jama_handleSubmit faults user selectedRental returnFormData returnItems db))
     = tbl_stock_items db"
  by (cases user; cases selectedRental) (simp_all add: Jama_handleSubmit_def Let_def)

lemma Jama_handleSubmit_rental_items:
  "tbl_rental_items (snd (Jama_handleSubmit faults user selectedRental returnFormData returnItems db))
     = tbl_rental_items db"
  by (cases user; cases selectedRental) (simp_all add: Jama_handleSubmit_def Let_def)

lemma Udhar_handleSubmit_stock:
  "tbl_stock_items (snd (Udhar_handleSubmit faults user formData rentalItems stockItems db))
     = (if fst (Udhar_handleSubmit faults user formData rentalItems stockItems db) = Succeeded
        then update_stock (stock_update_fails faults) stockItems 0 rentalItems (tbl_stock_items db)
        else tbl_stock_items db)"
  by (simp add: Udhar_handleSubmit_def Let_def)

lemma Udhar_handleSubmit_insufficient:
  assumes "user \<noteq> None" "rentalItems \<noteq> []"
    and "\<exists>item\<in>set rentalItems.
           quantity item > getAvailableQuantity stockItems (category_id item)"
  shows "Udhar_handleSubmit faults user formData rentalItems stockItems db
           = (Failed InsufficientStockError, db)"
  using assms by (simp add: Udhar_handleSubmit_def list_ex_iff)

lemma Udhar_handleSubmit_succeeds:
  assumes "user \<noteq> None" "rentalItems \<noteq> []"
    and "\<forall>item\<in>set rentalItems.
           quantity item \<le> getAvailableQuantity stockItems (category_id item)"
    and "\<not> rentals_insert_fails faults" "\<not> rental_items_insert_fails faults"
  shows "fst (Udhar_handleSubmit faults user formData rentalItems stockItems db) = Succeeded"
  using assms by (simp add: Udhar_handleSubmit_def list_ex_iff Let_def not_less)

text \<open>The stock loop never changes the id of a row.\<close>

lemma update_stock_ids:
  "map si_id (update_stock fails snap i items tbl) = map si_id tbl"
  by (induction items arbitrary: i tbl) (auto split: option.splits simp: comp_def)

text \<open>
  The loop keeps the invariant of every row, provided the snapshot satisfies it and
  agrees with the table on the two counters the loop does not write.
\<close>

lemma update_stock_invariant:
  assumes "\<forall>row\<in>set tbl. \<forall>s\<in>set snap. si_id s = si_id row \<longrightarrow>
             total_quantity s = total_quantity row \<and> damaged_quantity s = damaged_quantity row"
    and "\<forall>s\<in>set snap. stock_invariant s"
    and "\<forall>row\<in>set tbl. stock_invariant row"
  shows "\<forall>row\<in>set (update_stock fails snap i items tbl). stock_invariant row"
  using assms
proof (induction items arbitrary: i tbl)
  case Nil
  then show ?case by simp
next
  case (Cons item items)
  show ?case
  proof (cases "find (\<lambda>si. si_category_id si = category_id item) snap")
    case None
    then show ?thesis using Cons by simp
  next
    case (Some stockItem)
    from find_Some_mem[OF Some] have mem: "stockItem \<in> set snap"
      by simp
    show ?thesis
    proof (cases "fails i")
      case True
      then show ?thesis using Cons Some by simp
    next
      case False
      let ?tbl' = "map (\<lambda>row. if si_id row = si_id stockItem
                         then row\<lparr>available_quantity := available_quantity stockItem - quantity item,
                                  rented_quantity := rented_quantity stockItem + quantity item\<rparr>
                         else row) tbl"
      have a: "\<forall>row\<in>set ?tbl'. \<forall>s\<in>set snap. si_id s = si_id row \<longrightarrow>
             total_quantity s = total_quantity row \<and> damaged_quantity s = damaged_quantity row"
        using Cons.prems(1) by auto
      have b: "\<forall>row\<in>set ?tbl'. stock_invariant row"
        using Cons.prems mem by (auto simp: stock_invariant_def)
      have "\<forall>row\<in>set (update_stock fails snap (Suc i) items ?tbl'). stock_invariant row"
        by (rule Cons.IH[OF a Cons.prems(2) b])
      then show ?thesis using Some False by simp
    qed
  qed
qed

lemma distinct_ids_agree:
  assumes "distinct (map si_id tbl)"
  shows "\<forall>row\<in>set tbl. \<forall>s\<in>set tbl. si_id s = si_id row \<longrightarrow>
           total_quantity s = total_quantity row \<and> damaged_quantity s = damaged_quantity row"
proof (intro ballI impI)
  fix row s
  assume "row \<in> set tbl" "s \<in> set tbl" "si_id s = si_id row"
  with assms have "s = row"
    by (simp add: distinct_map inj_on_def)
  then show "total_quantity s = total_quantity row \<and> damaged_quantity s = damaged_quantity row"
    by simp
qed

lemma update_stock_ok:
  assumes "stock_ok tbl"
  shows "stock_ok (update_stock fails tbl i items tbl)"
  unfolding stock_ok_def
proof
  show "distinct (map si_id (update_stock fails tbl i items tbl))"
    using assms by (simp add: update_stock_ids stock_ok_def)
  have d: "distinct (map si_id tbl)" and inv: "\<forall>si\<in>set tbl. stock_invariant si"
    using assms by (simp_all add: stock_ok_def)
  show "\<forall>si\<in>set (update_stock fails tbl i items tbl). stock_invariant si"
    by (rule update_stock_invariant[OF distinct_ids_agree[OF d] inv inv])
qed

lemma apply_operation_ok:
  assumes "stock_ok (tbl_stock_items db)"
  shows "stock_ok (tbl_stock_items (apply_operation operation db))"
proof (cases operation)
  case (Issue faults user formData rentalItems)
  then show ?thesis
    using assms update_stock_ok[OF assms]
    by (simp add: Udhar_handleSubmit_stock)
next
  case (Return faults user selectedRental returnFormData returnItems)
  then show ?thesis
    using assms by (simp add: Jama_handleSubmit_stock)
qed

lemma run_ok:
  assumes "stock_ok (tbl_stock_items db)"
  shows "\<forall>db'\<in>set (run operations db). stock_ok (tbl_stock_items db')"
  using assms
proof (induction operations arbitrary: db)
  case Nil
  then show ?case by simp
next
  case (Cons operation operations)
  have "stock_ok (tbl_stock_items (apply_operation operation db))"
    by (rule apply_operation_ok[OF Cons.prems])
  with Cons.IH show ?case by (simp add: Let_def)
qed

text \<open>Writing the two counters of some rows does not change which row a category finds.\<close>

lemma find_category_write:
  "find (\<lambda>si. si_category_id si = c)
     (map (\<lambda>row. if si_id row = k
                  then row\<lparr>available_quantity := a, rented_quantity := b\<rparr> else row) tbl)
   = map_option (\<lambda>row. if si_id row = k
                  then row\<lparr>available_quantity := a, rented_quantity := b\<rparr> else row)
       (find (\<lambda>si. si_category_id si = c) tbl)"
  by (rule find_map_preserving) simp

lemma update_stock_step_other:
  assumes d: "distinct (map si_id snap)"
    and s: "s \<in> set snap" "si_category_id s = c"
    and r: "find (\<lambda>si. si_category_id si = c) tbl = Some r" "si_id r = si_id s"
    and other: "category_id item \<noteq> c"
    and f: "find (\<lambda>si. si_category_id si = category_id item) snap = Some s'"
  shows "find (\<lambda>si. si_category_id si = c)
           (map (\<lambda>row. if si_id row = si_id s'
                  then row\<lparr>available_quantity := a, rented_quantity := b\<rparr> else row) tbl)
         = Some r"
proof -
  from find_Some_mem[OF f] have s': "s' \<in> set snap" "si_category_id s' = category_id item"
    by simp_all
  with s other have "s' \<noteq> s" by auto
  with d s s'(1) have "si_id s' \<noteq> si_id s"
    by (auto simp: distinct_map inj_on_def)
  with r show ?thesis
    by (simp add: find_category_write)
qed

text \<open>Line items of other categories leave the row of category \<open>c\<close> alone.\<close>

lemma update_stock_untouched:
  assumes d: "distinct (map si_id snap)"
    and s: "s \<in> set snap" "si_category_id s = c"
    and r: "find (\<lambda>si. si_category_id si = c) tbl = Some r" "si_id r = si_id s"
    and other: "\<forall>item\<in>set items. category_id item \<noteq> c"
  shows "find (\<lambda>si. si_category_id si = c) (update_stock fails snap i items tbl) = Some r"
  using r(1) other
proof (induction items arbitrary: i tbl)
  case Nil
  then show ?case by simp
next
  case (Cons item items)
  from Cons.prems(2) have other: "category_id item \<noteq> c"
    and rest: "\<forall>item\<in>set items. category_id item \<noteq> c"
    by simp_all
  show ?case
  proof (cases "find (\<lambda>si. si_category_id si = category_id item) snap")
    case None
    then show ?thesis using Cons.IH[OF Cons.prems(1) rest] by simp
  next
    case (Some s')
    show ?thesis
    proof (cases "fails i")
      case True
      then show ?thesis using Some Cons.IH[OF Cons.prems(1) rest] by simp
    next
      case False
      have "find (\<lambda>si. si_category_id si = c)
           (map (\<lambda>row. if si_id row = si_id s'
                  then row\<lparr>available_quantity := available_quantity s' - quantity item,
                     rented_quantity := rented_quantity s' + quantity item\<rparr> else row) tbl)
         = Some r"
        by (rule update_stock_step_other[OF d s Cons.prems(1) r(2) other Some])
      from Cons.IH[OF this rest] show ?thesis using Some False by simp
    qed
  qed
qed

text \<open>
  When every category occurs once among the line items and no update fails, the row
  found for the category of a line item ends with the counters of that line item.
\<close>

lemma update_stock_item:
  assumes d: "distinct (map si_id snap)"
    and s: "find (\<lambda>si. si_category_id si = c) snap = Some s"
    and nofail: "\<forall>i. \<not> fails i"
    and r: "find (\<lambda>si. si_category_id si = c) tbl = Some r" "si_id r = si_id s"
      "\<forall>a b. r\<lparr>available_quantity := a, rented_quantity := b\<rparr>
            = s\<lparr>available_quantity := a, rented_quantity := b\<rparr>"
    and items: "distinct (map category_id items)" "item \<in> set items" "category_id item = c"
  shows "find (\<lambda>si. si_category_id si = c) (update_stock fails snap i items tbl)
         = Some (s\<lparr>available_quantity := available_quantity s - quantity item,
                   rented_quantity := rented_quantity s + quantity item\<rparr>)"
  using r(1) items
proof (induction items arbitrary: i tbl)
  case Nil
  then show ?case by simp
next
  case (Cons x items)
  from find_Some_mem[OF s] have s_mem: "s \<in> set snap" "si_category_id s = c"
    by simp_all
  show ?case
  proof (cases "category_id x = c")
    case True
    with Cons.prems(2,3,4) have "item \<notin> set items"
      by (auto simp: image_iff)
    with Cons.prems(3) have x: "x = item" by simp
    from Cons.prems(2) True have rest: "\<forall>y\<in>set items. category_id y \<noteq> c"
      by (auto simp: image_iff)
    let ?r' = "s\<lparr>available_quantity := available_quantity s - quantity item,
                   rented_quantity := rented_quantity s + quantity item\<rparr>"
    have "find (\<lambda>si. si_category_id si = c)
           (map (\<lambda>row. if si_id row = si_id s
                  then row\<lparr>available_quantity := available_quantity s - quantity item,
                     rented_quantity := rented_quantity s + quantity item\<rparr> else row) tbl)
          = Some ?r'"
      using Cons.prems(1) r(2,3) by (simp add: find_category_write)
    from update_stock_untouched[OF d s_mem this _ rest, of fails "Suc i"]
    show ?thesis using s True x spec[OF nofail, of i] by simp
  next
    case False
    with Cons.prems(3,4) have mem: "item \<in> set items" by auto
    from Cons.prems(2) have dist: "distinct (map category_id items)" by simp
    show ?thesis
    proof (cases "find (\<lambda>si. si_category_id si = category_id x) snap")
      case None
      then show ?thesis using Cons.IH[OF Cons.prems(1) dist mem Cons.prems(4)] by simp
    next
      case (Some s')
      have "find (\<lambda>si. si_category_id si = c)
           (map (\<lambda>row. if si_id row = si_id s'
                  then row\<lparr>available_quantity := available_quantity s' - quantity x,
                     rented_quantity := rented_quantity s' + quantity x\<rparr> else row) tbl)
         = Some r"
        by (rule update_stock_step_other[OF d s_mem Cons.prems(1) r(2) False Some])
      from Cons.IH[OF this dist mem Cons.prems(4)] show ?thesis
        using Some spec[OF nofail, of i] by simp
    qed
  qed
qed

lemma map_total_amount_write:
  "map total_amount
     (map (\<lambda>row. if r_id row = k then row\<lparr>status := st, actual_return_date := d\<rparr> else row) tbl)
   = map total_amount tbl"
  by (induction tbl) simp_all

lemma Jama_handleSubmit_total_amount:
  "map total_amount
     (tbl_rentals (snd (Jama_handleSubmit faults user selectedRental returnFormData returnItems db)))
   = map total_amount (tbl_rentals db)"
  by (cases user; cases selectedRental)
    (simp_all add: Jama_handleSubmit_def Let_def map_total_amount_write)

lemma generateInvoice_rentals:
  "tbl_rentals (snd (generateInvoice fails tz today user selectedRental invoiceFormData db))
     = tbl_rentals db"
  by (cases user; cases selectedRental) (simp_all add: generateInvoice_def Let_def)

lemma generateInvoice_subtotal:
  assumes "fst (generateInvoice fails tz today user (Some rental) invoiceFormData db) = Succeeded"
  shows "map subtotal
           (tbl_invoices
              (snd (generateInvoice fails tz today user (Some rental) invoiceFormData db)))
         = map subtotal (tbl_invoices db) @ [calculateRentalAmount tz today rental]"
  using assms by (cases user) (simp_all add: generateInvoice_def Let_def split: if_splits)

lemma calculateTotal_sum:
  "calculateTotal rentalItems = (\<Sum>item\<leftarrow>rentalItems. quantity item * daily_rate item)"
  by (simp add: calculateTotal_def foldl_plus_sum_list)

lemma Udhar_handleSubmit_total_amount:
  assumes "fst (Udhar_handleSubmit faults user formData rentalItems stockItems db) = Succeeded"
  shows "map total_amount
           (tbl_rentals (snd (Udhar_handleSubmit faults user formData rentalItems stockItems db)))
         = map total_amount (tbl_rentals db) @ [Some (calculateTotal rentalItems)]"
  using assms by (simp add: Udhar_handleSubmit_def Let_def split: if_splits)

text \<open>
  With both inserts accepted the handler succeeds whatever the quantities are, and the
  stored ReturnItems are the submissions with a positive quantity, as submitted.
\<close>

lemma Jama_handleSubmit_stores_positive:
  assumes "\<not> returns_insert_fails faults" and "\<not> return_items_insert_fails faults"
  shows "fst (Jama_handleSubmit faults (Some u) (Some rental) returnFormData returnItems db)
           = Succeeded
         \<and> map rti_returned_quantity
             (tbl_return_items
                (snd (Jama_handleSubmit faults (Some u) (Some rental) returnFormData returnItems db)))
           = map rti_returned_quantity (tbl_return_items db)
               @ filter (\<lambda>q. q > 0) (map returned_quantity returnItems)"
  using assms by (simp add: Jama_handleSubmit_def Let_def filter_map comp_def)

text \<open>The three totals of a ledger, as sums.\<close>

lemma clientLedger_totals:
  "totalOutstanding (clientLedger db c)
     = (\<Sum>rental\<leftarrow>filter (\<lambda>rental. r_client_id rental = c_id c
                          \<and> (status rental = Active \<or> status rental = Partially_returned))
                   (tbl_rentals db).
          case total_amount rental of Some a \<Rightarrow> a | None \<Rightarrow> 0)"
  "totalPaid (clientLedger db c)
     = (\<Sum>payment\<leftarrow>take 10 (sort_key (\<lambda>payment. - payment_date payment)
                   (filter (\<lambda>payment. pay_client_id payment = c_id c) (tbl_payments db))).
          amount payment)"
  "currentBalance (clientLedger db c)
     = totalOutstanding (clientLedger db c) - totalPaid (clientLedger db c)"
  by (simp_all add: clientLedger_def Let_def foldl_plus_sum_list with_rental_items_def comp_def)

subsection \<open>C1: accrued amount of a rental\<close>



text \<open>
  Across the return to standard time the count follows the local clock: the rental of
  \<open>rented_db\<close>, with day 0 as its rental date and day 2 as its return date, read in
  the zone \<open>eastern\<close>, runs from 20:00 to 19:00 two calendar days later, which is one
  full day: 2 days are charged, 250.  Read at UTC the same dates are 3 days, 375.
\<close>

lemma calculateRentalAmount_daylight_saving:
  "calculateRentalAmount eastern (noon (day 9)) (rented_rental\<lparr>actual_return_date := Some (day 2)\<rparr>)
     = 250"
  "calculateRentalAmount utc (noon (day 9)) (rented_rental\<lparr>actual_return_date := Some (day 2)\<rparr>)
     = 375"
  by (simp_all add: calculateRentalAmount_def differenceInDays_def compareLocalAsc_def
      differenceInCalendarDays_def Let_def scenario_defs)

subsection \<open>C2: quantities outside the pending range\<close>

text \<open>
  C2.  A batch is submitted through the form of the selected rental.  If it contains
  a submission, for a rental item of that rental, whose returned quantity exceeds the
  pending quantity (quantity - returned quantity) of the item or is negative, then
  the store is left unchanged and the submission does not succeed; with the submit
  button enabled the batch is refused with \<open>ValidationError\<close>: the quantity field
  violates its \<open>min\<close> or \<open>max\<close>, and the handler does not run.
\<close>

theorem Jama_submit_out_of_range:
  assumes "returnItem \<in> set returnItems"
    and "rental_items selectedRental = Some rentalItems"
    and "find (\<lambda>ri. ri_id ri = rental_item_id returnItem) rentalItems = Some rentalItem"
    and "ri_quantity rentalItem - ri_returned_quantity rentalItem < returned_quantity returnItem
         \<or> returned_quantity returnItem < 0"
  shows "snd (Jama_submit processing faults user selectedRental returnFormData returnItems db) = db
       \<and> fst (Jama_submit processing faults user selectedRental returnFormData returnItems db)
           \<noteq> Succeeded
       \<and> (\<not> processing \<and> (\<exists>item\<in>set returnItems. returned_quantity item \<noteq> 0)
            \<longrightarrow> Jama_submit processing faults user selectedRental returnFormData returnItems db
                  = (Failed ValidationError, db))"
proof -
  have bad: "\<not> (0 \<le> returned_quantity returnItem
                  \<and> returned_quantity returnItem \<le> pendingQuantity rentalItem)"
    using assms(4) by (auto simp: pendingQuantity_def)
  have "\<not> checkValidity selectedRental returnItems"
  proof
    assume "checkValidity selectedRental returnItems"
    with assms(1) have "case (case rental_items selectedRental of
                 None \<Rightarrow> None
               | Some ris \<Rightarrow> find (\<lambda>ri. ri_id ri = rental_item_id returnItem) ris) of
           None \<Rightarrow> True
         | Some rentalItem \<Rightarrow>
             0 \<le> returned_quantity returnItem
             \<and> returned_quantity returnItem \<le> pendingQuantity rentalItem
             \<and> of_int \<lfloor>returned_quantity returnItem\<rfloor> = returned_quantity returnItem
             \<and> (condition returnItem = Good
                  \<or> 0 \<le> damage_cost returnItem
                    \<and> of_int \<lfloor>damage_cost returnItem * 100\<rfloor> = damage_cost returnItem * 100)"
      unfolding checkValidity_def list_all_iff by blast
    with assms(2,3) bad show False by simp
  qed
  then show ?thesis
    by (simp add: Jama_submit_def list_all_iff)
qed

text \<open>
  Scenario C on \<open>rented_db\<close>, where 3 units of rental item 101 are pending: the batch
  with 4 units of it is refused and nothing is stored, and so is the batch with -1;
  the batch with 2 units passes the fields and is processed.
\<close>

theorem Jama_submit_out_of_range_witness:
  "map pendingQuantity (tbl_rental_items rented_db) = [3, 2]
   \<and> Jama_submit False no_Jama_faults (Some 1) rented_rental return_form
        [submission 101 4 Good 0, submission 102 0 Good 0] rented_db
      = (Failed ValidationError, rented_db)
   \<and> Jama_submit False no_Jama_faults (Some 1) rented_rental return_form
        [submission 101 (- 1) Good 0, submission 102 0 Good 0] rented_db
      = (Failed ValidationError, rented_db)
   \<and> fst (Jama_submit False no_Jama_faults (Some 1) rented_rental return_form
        [submission 101 2 Good 0, submission 102 0 Good 0] rented_db) = Succeeded"
proof -
  have r: "rental_items rented_rental = Some (tbl_rental_items rented_db)"
    by (simp add: scenario_defs)
  have f: "find (\<lambda>ri. ri_id ri = rental_item_id (submission 101 4 Good 0))
             (tbl_rental_items rented_db) = Some (hd (tbl_rental_items rented_db))"
    "find (\<lambda>ri. ri_id ri = rental_item_id (submission 101 (- 1) Good 0))
             (tbl_rental_items rented_db) = Some (hd (tbl_rental_items rented_db))"
    by (simp_all add: scenario_defs)
  have over: "Jama_submit False no_Jama_faults (Some 1) rented_rental return_form
        [submission 101 4 Good 0, submission 102 0 Good 0] rented_db
      = (Failed ValidationError, rented_db)"
    using Jama_submit_out_of_range [OF _ r f(1), of "[submission 101 4 Good 0,
        submission 102 0 Good 0]" False no_Jama_faults "Some 1" return_form rented_db]
    by (simp add: submission_def rented_db_def)
  have under: "Jama_submit False no_Jama_faults (Some 1) rented_rental return_form
        [submission 101 (- 1) Good 0, submission 102 0 Good 0] rented_db
      = (Failed ValidationError, rented_db)"
    using Jama_submit_out_of_range [OF _ r f(2), of "[submission 101 (- 1) Good 0,
        submission 102 0 Good 0]" False no_Jama_faults "Some 1" return_form rented_db]
    by (simp add: submission_def rented_db_def)
  have pending: "map pendingQuantity (tbl_rental_items rented_db) = [3, 2]"
    by (simp add: pendingQuantity_def scenario_defs)
  have valid: "fst (Jama_submit False no_Jama_faults (Some 1) rented_rental return_form
        [submission 101 2 Good 0, submission 102 0 Good 0] rented_db) = Succeeded"
    by (simp add: Jama_submit_def checkValidity_def pendingQuantity_def Jama_handleSubmit_def
        Let_def scenario_defs)
  from pending over under valid show ?thesis by blast
qed

subsection \<open>C3: the returned quantity of a rental item\<close>

text \<open>
  C3.  On \<open>rented_db\<close> a batch returning 2 of the 3 units of rental item 101 (and
  none of item 102) is processed with success and its ReturnItem is stored, but the stored
  \<open>returned_quantity\<close> of the rental item is still 0 afterwards: the handler never
  writes the \<open>rental_items\<close> table.
\<close>

theorem Jama_handleSubmit_returned_quantity:
  "fst (Jama_handleSubmit no_Jama_faults (Some 1) (Some rented_rental) return_form
          [submission 101 2 Good 0, submission 102 0 Good 0] rented_db) = Succeeded
   \<and> map rti_returned_quantity
       (tbl_return_items (snd (Jama_handleSubmit no_Jama_faults (Some 1) (Some rented_rental)
          return_form [submission 101 2 Good 0, submission 102 0 Good 0] rented_db))) = [2]
   \<and> map ri_returned_quantity (tbl_rental_items rented_db) = [0, 0]
   \<and> map ri_returned_quantity
       (tbl_rental_items (snd (Jama_handleSubmit no_Jama_faults (Some 1) (Some rented_rental)
          return_form [submission 101 2 Good 0, submission 102 0 Good 0] rented_db))) = [0, 0]"
  by (simp add: Jama_handleSubmit_def calculateTotalDamageCost_def allItemsReturned_def Let_def
      scenario_defs)

subsection \<open>C4: the stock counters after a return\<close>

text \<open>
  C4.  Scenario B on \<open>rented_db\<close>: one unit of category 7 comes back good and one unit
  of category 8 damaged, at a damage cost of 500.  The return is processed with
  success and the header carries the damage cost, but the counters (available,
  rented, damaged) of both stock rows are what they were: (7, 3, 0) and (3, 2, 0).
\<close>

theorem Jama_handleSubmit_stock_counters:
  "fst (Jama_handleSubmit no_Jama_faults (Some 1) (Some rented_rental) return_form
          [submission 101 1 Good 0, submission 102 1 Damaged 500] rented_db) = Succeeded
   \<and> map total_damage_cost
       (tbl_returns (snd (Jama_handleSubmit no_Jama_faults (Some 1) (Some rented_rental)
          return_form [submission 101 1 Good 0, submission 102 1 Damaged 500] rented_db)))
       = [500]
   \<and> map (\<lambda>si. (available_quantity si, rented_quantity si, damaged_quantity si))
       (tbl_stock_items rented_db) = [(7, 3, 0), (3, 2, 0)]
   \<and> map (\<lambda>si. (available_quantity si, rented_quantity si, damaged_quantity si))
       (tbl_stock_items (snd (Jama_handleSubmit no_Jama_faults (Some 1) (Some rented_rental)
          return_form [submission 101 1 Good 0, submission 102 1 Damaged 500] rented_db)))
       = [(7, 3, 0), (3, 2, 0)]"
  by (simp add: Jama_handleSubmit_def calculateTotalDamageCost_def allItemsReturned_def Let_def
      scenario_defs)


text \<open>
  Scenario A: both rental items of \<open>rented_db\<close> come back in full in one batch; the
  rental becomes completed and gets the return date.
\<close>

lemma Jama_handleSubmit_scenario_A:
  "map (\<lambda>rental. (status rental, actual_return_date rental))
     (tbl_rentals (snd (Jama_handleSubmit no_Jama_faults (Some 1) (Some rented_rental) return_form
        [submission 101 3 Good 0, submission 102 2 Good 0] rented_db)))
   = [(Completed, Some (day 4))]"
  by (simp add: Jama_handleSubmit_def calculateTotalDamageCost_def allItemsReturned_def Let_def
      scenario_defs)

text \<open>
  The same units returned in two batches: 2 of item 101 with all of item 102 first,
  then, with the rental read again from the store, the last unit of item 101.  The
  stored returned quantities are still 0 at the second batch, so the rental stays
  partially returned although every unit has come back.
\<close>

lemma Jama_handleSubmit_two_batches:
  "map status
     (tbl_rentals (snd (Jama_handleSubmit no_Jama_faults (Some 1)
        (Some (with_rental_items
           (snd (Jama_handleSubmit no_Jama_faults (Some 1) (Some rented_rental) return_form
              [submission 101 2 Good 0, submission 102 2 Good 0] rented_db))
           (hd (tbl_rentals
              (snd (Jama_handleSubmit no_Jama_faults (Some 1) (Some rented_rental) return_form
                 [submission 101 2 Good 0, submission 102 2 Good 0] rented_db))))))
        return_form [submission 101 1 Good 0, submission 102 0 Good 0]
        (snd (Jama_handleSubmit no_Jama_faults (Some 1) (Some rented_rental) return_form
           [submission 101 2 Good 0, submission 102 2 Good 0] rented_db)))))
   = [Partially_returned]"
  by (simp add: Jama_handleSubmit_def calculateTotalDamageCost_def allItemsReturned_def Let_def
      scenario_defs)

subsection \<open>C5: failures of the store during return processing\<close>

text \<open>
  C5 as stated fails: when the insert of the ReturnItems is answered with an error,
  the handler reports a failure, yet the Return header it stored before stays in the
  store.
\<close>

theorem Jama_handleSubmit_partial_state:
  "fst (Jama_handleSubmit items_insert_fault (Some 1) (Some rented_rental) return_form
          [submission 101 2 Good 0, submission 102 0 Good 0] rented_db) = Failed StoreError
   \<and> tbl_returns rented_db = []
   \<and> tbl_returns (snd (Jama_handleSubmit items_insert_fault (Some 1) (Some rented_rental)
          return_form [submission 101 2 Good 0, submission 102 0 Good 0] rented_db))
       = [\<lparr>ret_id = 103, ret_rental_id = 100, ret_return_date = day 4, total_damage_cost = 0\<rparr>]"
  by (simp add: Jama_handleSubmit_def calculateTotalDamageCost_def Let_def scenario_defs)

text \<open>
  C5, amended.  The store calls of return processing run one after the other and
  nothing is undone.  For a signed-in user and a selected rental:
  if the insert of the Return header fails, the handler fails and the store is
  unchanged; if that insert succeeds and the insert of the ReturnItems fails, the
  handler fails and the store differs from the prior one by the stored header (and
  the id it used) only, so that no ReturnItem row exists and the rental, rental item
  and stock records are the prior ones.
\<close>

theorem Jama_handleSubmit_failures:
  assumes "user = Some u" and "selectedRental = Some rental"
  shows "(returns_insert_fails faults
            \<longrightarrow> Jama_handleSubmit faults user selectedRental returnFormData returnItems db
                  = (Failed StoreError, db))
       \<and> (\<not> returns_insert_fails faults \<and> return_items_insert_fails faults
            \<longrightarrow> Jama_handleSubmit faults user selectedRental returnFormData returnItems db
                  = (Failed StoreError,
                     db\<lparr>next_id := Suc (next_id db),
                        tbl_returns := tbl_returns db @
                          [\<lparr>ret_id = next_id db,
                            ret_rental_id = rf_rental_id returnFormData,
                            ret_return_date = rf_return_date returnFormData,
                            total_damage_cost = calculateTotalDamageCost returnItems\<rparr>]\<rparr>))"
  using assms by (simp add: Jama_handleSubmit_def Let_def)

theorem Jama_handleSubmit_failures_witness:
  "Jama_handleSubmit
      \<lparr>returns_insert_fails = True, return_items_insert_fails = False,
        rentals_update_fails = False\<rparr>
      (Some 1) (Some rented_rental) return_form
      [submission 101 2 Good 0, submission 102 0 Good 0] rented_db
     = (Failed StoreError, rented_db)
   \<and> Jama_handleSubmit items_insert_fault (Some 1) (Some rented_rental) return_form
        [submission 101 2 Good 0, submission 102 0 Good 0] rented_db
     = (Failed StoreError,
        rented_db\<lparr>next_id := 104,
          tbl_returns := [\<lparr>ret_id = 103, ret_rental_id = 100, ret_return_date = day 4,
                           total_damage_cost = 0\<rparr>]\<rparr>)"
  using
    Jama_handleSubmit_failures [of "Some 1" 1 "Some rented_rental" rented_rental
      "\<lparr>returns_insert_fails = True, return_items_insert_fails = False,
        rentals_update_fails = False\<rparr>" return_form
      "[submission 101 2 Good 0, submission 102 0 Good 0]" rented_db]
    Jama_handleSubmit_failures [of "Some 1" 1 "Some rented_rental" rented_rental
      items_insert_fault return_form
      "[submission 101 2 Good 0, submission 102 0 Good 0]" rented_db]
  by (simp add: items_insert_fault_def calculateTotalDamageCost_def submission_def
      return_form_def rented_db_def)

subsection \<open>C6: issuance against the stock counters\<close>

text \<open>
  C6.  A signed-in user submits a non-empty issuance whose line items name each
  category once, with the stock snapshot equal to the stock table (ids pairwise
  different).  If the quantity of some line item exceeds the available quantity of its
  category, the submission fails with \<open>InsufficientStockError\<close> and the store is
  unchanged.  Otherwise, when the store answers no call with an error, the
  submission succeeds, and for every line item the stock row of its category has its
  available quantity decreased and its rented quantity increased by the quantity of
  the line item, its other columns unchanged.
\<close>

theorem Udhar_handleSubmit_issue:
  assumes "user \<noteq> None" and "rentalItems \<noteq> []"
    and "stockItems = tbl_stock_items db"
    and "distinct (map si_id stockItems)"
    and "distinct (map category_id rentalItems)"
  shows "((\<exists>item\<in>set rentalItems.
             getAvailableQuantity stockItems (category_id item) < quantity item)
          \<longrightarrow> Udhar_handleSubmit faults user formData rentalItems stockItems db
                = (Failed InsufficientStockError, db))
       \<and> ((\<forall>item\<in>set rentalItems.
              quantity item \<le> getAvailableQuantity stockItems (category_id item))
            \<and> \<not> rentals_insert_fails faults \<and> \<not> rental_items_insert_fails faults
            \<and> (\<forall>i. \<not> stock_update_fails faults i)
          \<longrightarrow> fst (Udhar_handleSubmit faults user formData rentalItems stockItems db) = Succeeded
              \<and> (\<forall>item\<in>set rentalItems. \<forall>si.
                    find (\<lambda>s. si_category_id s = category_id item) stockItems = Some si
                    \<longrightarrow> getAvailableQuantity stockItems (category_id item) = available_quantity si
                        \<and> find (\<lambda>s. si_category_id s = category_id item)
                            (tbl_stock_items
                               (snd (Udhar_handleSubmit faults user formData rentalItems
                                       stockItems db)))
                          = Some (si\<lparr>available_quantity := available_quantity si - quantity item,
                                      rented_quantity := rented_quantity si + quantity item\<rparr>)))"
proof (intro conjI impI)
  assume "\<exists>item\<in>set rentalItems.
            getAvailableQuantity stockItems (category_id item) < quantity item"
  then show "Udhar_handleSubmit faults user formData rentalItems stockItems db
               = (Failed InsufficientStockError, db)"
    using assms(1,2) by (intro Udhar_handleSubmit_insufficient) simp_all
next
  assume ok: "(\<forall>item\<in>set rentalItems.
              quantity item \<le> getAvailableQuantity stockItems (category_id item))
            \<and> \<not> rentals_insert_fails faults \<and> \<not> rental_items_insert_fails faults
            \<and> (\<forall>i. \<not> stock_update_fails faults i)"
  then show succ: "fst (Udhar_handleSubmit faults user formData rentalItems stockItems db)
                     = Succeeded"
    using assms(1,2) by (intro Udhar_handleSubmit_succeeds) simp_all
  show "\<forall>item\<in>set rentalItems. \<forall>si.
          find (\<lambda>s. si_category_id s = category_id item) stockItems = Some si
          \<longrightarrow> getAvailableQuantity stockItems (category_id item) = available_quantity si
              \<and> find (\<lambda>s. si_category_id s = category_id item)
                  (tbl_stock_items
                     (snd (Udhar_handleSubmit faults user formData rentalItems stockItems db)))
                = Some (si\<lparr>available_quantity := available_quantity si - quantity item,
                            rented_quantity := rented_quantity si + quantity item\<rparr>)"
  proof (intro ballI allI impI conjI)
    fix item si
    assume item: "item \<in> set rentalItems"
      and si: "find (\<lambda>s. si_category_id s = category_id item) stockItems = Some si"
    from si show "getAvailableQuantity stockItems (category_id item) = available_quantity si"
      by (simp add: getAvailableQuantity_def)
    from ok have nofail: "\<forall>i. \<not> stock_update_fails faults i" by simp
    have "find (\<lambda>s. si_category_id s = category_id item)
            (update_stock (stock_update_fails faults) stockItems 0 rentalItems stockItems)
          = Some (si\<lparr>available_quantity := available_quantity si - quantity item,
                      rented_quantity := rented_quantity si + quantity item\<rparr>)"
      by (rule update_stock_item[OF assms(4) si nofail si _ _ assms(5) item]) simp_all
    then show "find (\<lambda>s. si_category_id s = category_id item)
                  (tbl_stock_items
                     (snd (Udhar_handleSubmit faults user formData rentalItems stockItems db)))
                = Some (si\<lparr>available_quantity := available_quantity si - quantity item,
                            rented_quantity := rented_quantity si + quantity item\<rparr>)"
      using succ assms(3) by (simp add: Udhar_handleSubmit_stock)
  qed
qed

text \<open>
  Scenario D: 10 units asked of category 7 with 6 available is refused and nothing is
  stored; 4 units are issued, and the row goes from 6 available and 4 rented to 2 and 8.
\<close>

theorem Udhar_handleSubmit_issue_witness:
  "getAvailableQuantity (tbl_stock_items shop_db) 7 = 6
   \<and> Udhar_handleSubmit no_Udhar_faults (Some 1) udhar_form [line 7 10 25]
         (tbl_stock_items shop_db) shop_db
       = (Failed InsufficientStockError, shop_db)
   \<and> fst (Udhar_handleSubmit no_Udhar_faults (Some 1) udhar_form [line 7 4 25]
         (tbl_stock_items shop_db) shop_db) = Succeeded
   \<and> tbl_stock_items (snd (Udhar_handleSubmit no_Udhar_faults (Some 1) udhar_form [line 7 4 25]
         (tbl_stock_items shop_db) shop_db))
       = [stock_7\<lparr>available_quantity := 2, rented_quantity := 8\<rparr>]"
proof -
  have h: "Some (1::nat) \<noteq> None" "[line 7 10 25] \<noteq> []" "[line 7 4 25] \<noteq> []"
    "tbl_stock_items shop_db = tbl_stock_items shop_db"
    "distinct (map si_id (tbl_stock_items shop_db))"
    "distinct (map category_id [line 7 10 25])" "distinct (map category_id [line 7 4 25])"
    by (simp_all add: scenario_defs)
  have avail: "getAvailableQuantity (tbl_stock_items shop_db) 7 = 6"
    by (simp add: getAvailableQuantity_def scenario_defs)
  have refused: "Udhar_handleSubmit no_Udhar_faults (Some 1) udhar_form [line 7 10 25]
         (tbl_stock_items shop_db) shop_db = (Failed InsufficientStockError, shop_db)"
    using Udhar_handleSubmit_issue [OF h(1) h(2) h(4) h(5) h(6),
        of no_Udhar_faults udhar_form] avail
    by (simp add: line_def)
  have issued: "fst (Udhar_handleSubmit no_Udhar_faults (Some 1) udhar_form [line 7 4 25]
         (tbl_stock_items shop_db) shop_db) = Succeeded
      \<and> find (\<lambda>s. si_category_id s = 7)
           (tbl_stock_items (snd (Udhar_handleSubmit no_Udhar_faults (Some 1) udhar_form
              [line 7 4 25] (tbl_stock_items shop_db) shop_db)))
         = Some (stock_7\<lparr>available_quantity := 2, rented_quantity := 8\<rparr>)"
    using Udhar_handleSubmit_issue [OF h(1) h(3) h(4) h(5) h(7),
        of no_Udhar_faults udhar_form] avail
    by (simp add: line_def no_Udhar_faults_def shop_db_def stock_7_def)
  have len: "map si_id (tbl_stock_items (snd (Udhar_handleSubmit no_Udhar_faults (Some 1)
         udhar_form [line 7 4 25] (tbl_stock_items shop_db) shop_db))) = [1]"
    using issued by (simp add: Udhar_handleSubmit_stock update_stock_ids shop_db_def stock_7_def)
  from issued len avail refused show ?thesis
    by (auto simp: map_eq_Cons_conv split: if_splits)
qed

subsection \<open>C7: the stock invariant along a sequence of issuances and returns\<close>

text \<open>
  C7.  If the stock rows have pairwise different ids and every row satisfies
  available + rented + damaged = total, then after each operation of any finite
  sequence of issuances and returns (of goods in any condition) every stock row
  still satisfies it.
\<close>

theorem stock_invariant_run:
  assumes "distinct (map si_id (tbl_stock_items db))"
    and "\<forall>si\<in>set (tbl_stock_items db). stock_invariant si"
  shows "\<forall>db'\<in>set (run operations db). \<forall>si\<in>set (tbl_stock_items db'). stock_invariant si"
  using run_ok[of db operations] assms by (simp add: stock_ok_def)

text \<open>
  On \<open>rented_db\<close>: a return of 2 units in good condition, an issuance of 4 units of
  category 7, and a return of 1 damaged unit.  In each of the three states the two
  stock rows add up to their totals of 10 and 5.
\<close>

theorem stock_invariant_run_witness:
  "distinct (map si_id (tbl_stock_items rented_db))
   \<and> list_all stock_invariant (tbl_stock_items rented_db)
   \<and> map (\<lambda>db'. map (\<lambda>si. available_quantity si + rented_quantity si + damaged_quantity si)
                  (tbl_stock_items db'))
       (run [Return no_Jama_faults (Some 1) (Some rented_rental) return_form
               [submission 101 2 Good 0, submission 102 0 Good 0],
             Issue no_Udhar_faults (Some 1) udhar_form [line 7 4 25],
             Return no_Jama_faults (Some 1) (Some rented_rental) return_form
               [submission 101 0 Good 0, submission 102 1 Damaged 500]] rented_db)
     = [[10, 5], [10, 5], [10, 5]]"
proof -
  have d: "distinct (map si_id (tbl_stock_items rented_db))"
    by (simp add: scenario_defs)
  have i: "\<forall>si\<in>set (tbl_stock_items rented_db). stock_invariant si"
    by (simp add: scenario_defs stock_invariant_def)
  from stock_invariant_run [OF d i,
      of "[Return no_Jama_faults (Some 1) (Some rented_rental) return_form
               [submission 101 2 Good 0, submission 102 0 Good 0],
             Issue no_Udhar_faults (Some 1) udhar_form [line 7 4 25],
             Return no_Jama_faults (Some 1) (Some rented_rental) return_form
               [submission 101 0 Good 0, submission 102 1 Damaged 500]]"]
  show ?thesis
    using d i
    by (simp add: Let_def Udhar_handleSubmit_def Jama_handleSubmit_def getAvailableQuantity_def
        calculateTotal_def scenario_defs stock_invariant_def)
qed

subsection \<open>C8: the totals of a client ledger\<close>

text \<open>
  C8.  The client of \<open>ledger_db\<close> has made eleven payments of 100.  The ledger keeps
  the ten latest and reports 1000 as the total paid, while the payments of the client
  add up to 1100.
\<close>

theorem clientLedger_totalPaid_limit:
  "(\<Sum>payment\<leftarrow>filter (\<lambda>payment. pay_client_id payment = 3) (tbl_payments ledger_db).
       amount payment) = 1100
   \<and> length (recentPayments (clientLedger ledger_db \<lparr>c_id = 3, c_name = ''Asha''\<rparr>)) = 10
   \<and> totalPaid (clientLedger ledger_db \<lparr>c_id = 3, c_name = ''Asha''\<rparr>) = 1000
   \<and> currentBalance (clientLedger ledger_db \<lparr>c_id = 3, c_name = ''Asha''\<rparr>) = - 1000"
  by (simp add: clientLedger_def Let_def scenario_defs upt_rec [of _ "numeral n" for n])

subsection \<open>C9: the stored total amount of a rental\<close>

text \<open>
  C9 as stated fails: for 2 units at 25 a day issued on day 0 and invoiced on day 4,
  the amount accrued at invoice generation is 250 and that is the subtotal of the
  invoice, while the rental row still carries the 50 written when it was issued.
\<close>

theorem total_amount_not_invoice_snapshot:
  "calculateRentalAmount utc (noon (day 4)) issued_rental = 250
   \<and> map subtotal (tbl_invoices invoiced_db) = [250]
   \<and> map total_amount (tbl_rentals invoiced_db) = [Some 50]"
  by (simp add: generateInvoice_def calculateRentalAmount_def differenceInDays_def
      compareLocalAsc_def differenceInCalendarDays_def
      Udhar_handleSubmit_def getAvailableQuantity_def calculateTotal_def Let_def scenario_defs)

text \<open>
  C9, amended.  The stored \<open>total_amount\<close> of a rental is written once, when the
  rental is issued, as the sum of quantity * daily_rate over its line items.
  Generating an invoice leaves the rentals table as it is and stores the amount
  accrued at that time as the subtotal of the invoice; return processing does not
  change the \<open>total_amount\<close> of any rental.  So the stored amount is not recomputed
  as time passes and is separate from the value of \<open>calculateRentalAmount\<close>.
\<close>

theorem total_amount_set_at_issue:
  "(fst (Udhar_handleSubmit ufaults user formData rentalItems stockItems db) = Succeeded
      \<longrightarrow> map total_amount
            (tbl_rentals (snd (Udhar_handleSubmit ufaults user formData rentalItems stockItems db)))
          = map total_amount (tbl_rentals db)
              @ [Some (\<Sum>item\<leftarrow>rentalItems. quantity item * daily_rate item)])
   \<and> tbl_rentals (snd (generateInvoice fails tz today user selectedRental invoiceFormData db))
       = tbl_rentals db
   \<and> (fst (generateInvoice fails tz today user (Some rental) invoiceFormData db) = Succeeded
      \<longrightarrow> map subtotal
            (tbl_invoices (snd (generateInvoice fails tz today user (Some rental) invoiceFormData db)))
          = map subtotal (tbl_invoices db) @ [calculateRentalAmount tz today rental])
   \<and> map total_amount
       (tbl_rentals (snd (Jama_handleSubmit jfaults user selectedRental returnFormData
                            returnItems db)))
       = map total_amount (tbl_rentals db)"
  by (simp add: Udhar_handleSubmit_total_amount calculateTotal_sum generateInvoice_rentals
      generateInvoice_subtotal Jama_handleSubmit_total_amount)

theorem total_amount_set_at_issue_witness:
  "fst (Udhar_handleSubmit no_Udhar_faults (Some 1) udhar_form [line 7 2 25]
          (tbl_stock_items shop_db) shop_db) = Succeeded
   \<and> map total_amount (tbl_rentals issued_db) = [Some 50]
   \<and> fst (generateInvoice False utc (noon (day 4)) (Some 1) (Some issued_rental) invoice_form issued_db)
       = Succeeded
   \<and> tbl_rentals invoiced_db = tbl_rentals issued_db
   \<and> map subtotal (tbl_invoices invoiced_db) = [calculateRentalAmount utc (noon (day 4)) issued_rental]"
proof -
  have u: "fst (Udhar_handleSubmit no_Udhar_faults (Some 1) udhar_form [line 7 2 25]
          (tbl_stock_items shop_db) shop_db) = Succeeded"
    by (simp add: Udhar_handleSubmit_def getAvailableQuantity_def Let_def scenario_defs)
  have g: "fst (generateInvoice False utc (noon (day 4)) (Some 1) (Some issued_rental) invoice_form
          issued_db) = Succeeded"
    by (simp add: generateInvoice_def Let_def)
  have e: "tbl_invoices issued_db = []" "tbl_rentals shop_db = []"
    by (simp_all add: Udhar_handleSubmit_def getAvailableQuantity_def Let_def scenario_defs)
  note at_issue =
    total_amount_set_at_issue [of no_Udhar_faults "Some 1" udhar_form "[line 7 2 25]"
      "tbl_stock_items shop_db" shop_db False utc "noon (day 4)" "Some issued_rental" invoice_form
      issued_rental no_Jama_faults return_form "[]"]
  note at_invoice =
    total_amount_set_at_issue [of no_Udhar_faults "Some 1" udhar_form "[line 7 2 25]"
      "tbl_stock_items issued_db" issued_db False utc "noon (day 4)" "Some issued_rental" invoice_form
      issued_rental no_Jama_faults return_form "[]"]
  from at_issue u
  have "map total_amount (tbl_rentals issued_db)
          = map total_amount (tbl_rentals shop_db)
              @ [Some (\<Sum>item\<leftarrow>[line 7 2 25]. quantity item * daily_rate item)]"
    unfolding issued_db_def by blast
  with e have a: "map total_amount (tbl_rentals issued_db) = [Some 50]"
    by (simp add: line_def)
  from at_invoice have b: "tbl_rentals invoiced_db = tbl_rentals issued_db"
    unfolding invoiced_db_def by blast
  from at_invoice g
  have "map subtotal (tbl_invoices invoiced_db)
          = map subtotal (tbl_invoices issued_db) @ [calculateRentalAmount utc (noon (day 4)) issued_rental]"
    unfolding invoiced_db_def by blast
  with e have c: "map subtotal (tbl_invoices invoiced_db)
                    = [calculateRentalAmount utc (noon (day 4)) issued_rental]"
    by simp
  from u g a b c show ?thesis
    by blast
qed

subsection \<open>C10: two line items of one category\<close>

text \<open>
  C10.  There is an issuance with two line items of the same category, each within the
  available quantity and together above it, that succeeds and leaves the stock row
  with the counters of the last line item alone: available and rented are those of
  the snapshot moved by the second quantity, not by the sum.
\<close>

theorem duplicate_category_issue:
  "\<exists>db user formData item1 item2 si.
     tbl_stock_items db = [si]
     \<and> category_id item1 = si_category_id si \<and> category_id item2 = si_category_id si
     \<and> quantity item1 \<le> getAvailableQuantity (tbl_stock_items db) (category_id item1)
     \<and> quantity item2 \<le> getAvailableQuantity (tbl_stock_items db) (category_id item2)
     \<and> available_quantity si < quantity item1 + quantity item2
     \<and> fst (Udhar_handleSubmit no_Udhar_faults user formData [item1, item2]
               (tbl_stock_items db) db) = Succeeded
     \<and> tbl_stock_items (snd (Udhar_handleSubmit no_Udhar_faults user formData [item1, item2]
               (tbl_stock_items db) db))
         = [si\<lparr>available_quantity := available_quantity si - quantity item2,
                rented_quantity := rented_quantity si + quantity item2\<rparr>]"
proof (intro exI)
  show "tbl_stock_items shop_db = [stock_7]
     \<and> category_id (line 7 4 25) = si_category_id stock_7
     \<and> category_id (line 7 5 25) = si_category_id stock_7
     \<and> quantity (line 7 4 25)
          \<le> getAvailableQuantity (tbl_stock_items shop_db) (category_id (line 7 4 25))
     \<and> quantity (line 7 5 25)
          \<le> getAvailableQuantity (tbl_stock_items shop_db) (category_id (line 7 5 25))
     \<and> available_quantity stock_7 < quantity (line 7 4 25) + quantity (line 7 5 25)
     \<and> fst (Udhar_handleSubmit no_Udhar_faults (Some 1) udhar_form [line 7 4 25, line 7 5 25]
               (tbl_stock_items shop_db) shop_db) = Succeeded
     \<and> tbl_stock_items (snd (Udhar_handleSubmit no_Udhar_faults (Some 1) udhar_form
               [line 7 4 25, line 7 5 25] (tbl_stock_items shop_db) shop_db))
         = [stock_7\<lparr>available_quantity := available_quantity stock_7 - quantity (line 7 5 25),
                rented_quantity := rented_quantity stock_7 + quantity (line 7 5 25)\<rparr>]"
    by (simp add: Udhar_handleSubmit_def getAvailableQuantity_def calculateTotal_def Let_def
        scenario_defs)
qed

end
